theory Spec2Isabelle
  imports Main "HOL-Library.Multiset"
begin

section \<open>Test scoring: \<open>healmymind/utils.py\<close>\<close>

text \<open>
  \<open>calculate_test_score(answers, test_type)\<close> receives the answers as a Python dict from
  question identifier (a string) to the chosen integer value. A dict keeps its entries
  in insertion order and has no duplicate keys; it is modelled as an association list
  in iteration order, and the theorems that depend on key uniqueness assume
  \<open>distinct (map fst answers)\<close>.

  A \<open>range_info\<close> is one of the dict literals \<open>{'min': .., 'max': .., 'severity': ..}\<close>
  of the hard-coded table; its keys \<open>min\<close>, \<open>max\<close>, \<open>severity\<close> are the fields
  \<open>range_min\<close>, \<open>range_max\<close>, \<open>range_severity\<close>. The returned dict
  \<open>{'score': .., 'severity': ..}\<close> is the record \<open>score_result\<close>.
\<close>

type_synonym answers = "(string \<times> int) list"

record range_info =
  range_min :: int
  range_max :: int
  range_severity :: string

record score_result =
  score :: int
  severity :: string

text \<open>The dict literal \<open>scoring_ranges\<close>, keyed by test type, in the order it is written.\<close>

definition scoring_ranges :: "(string \<times> range_info list) list" where
  "scoring_ranges =
     [(''PHQ9'',
        [\<lparr>range_min = 0, range_max = 4, range_severity = ''MINIMAL''\<rparr>,
         \<lparr>range_min = 5, range_max = 9, range_severity = ''MILD''\<rparr>,
         \<lparr>range_min = 10, range_max = 14, range_severity = ''MODERATE''\<rparr>,
         \<lparr>range_min = 15, range_max = 27, range_severity = ''SEVERE''\<rparr>]),
      (''GAD7'',
        [\<lparr>range_min = 0, range_max = 4, range_severity = ''MINIMAL''\<rparr>,
         \<lparr>range_min = 5, range_max = 9, range_severity = ''MILD''\<rparr>,
         \<lparr>range_min = 10, range_max = 14, range_severity = ''MODERATE''\<rparr>,
         \<lparr>range_min = 15, range_max = 21, range_severity = ''SEVERE''\<rparr>])]"

text \<open>\<open>scoring_ranges.get(test_type, [])\<close>.\<close>

definition ranges_for :: "string \<Rightarrow> range_info list" where
  "ranges_for test_type =
     (case map_of scoring_ranges test_type of None \<Rightarrow> [] | Some rs \<Rightarrow> rs)"

text \<open>
  The \<open>for range_info in ranges\<close> loop: the third argument is the current value of the
  variable \<open>severity\<close>; the first range with \<open>min <= total_score <= max\<close> assigns it and
  breaks.
\<close>

fun scan_ranges :: "range_info list \<Rightarrow> int \<Rightarrow> string \<Rightarrow> string" where
  "scan_ranges [] total_score sev = sev"
| "scan_ranges (r # rs) total_score sev =
     (if range_min r \<le> total_score \<and> total_score \<le> range_max r
      then range_severity r
      else scan_ranges rs total_score sev)"

definition calculate_test_score :: "answers \<Rightarrow> string \<Rightarrow> score_result" where
  "calculate_test_score answers test_type =
     (let total_score = sum_list (map snd answers);
          ranges = ranges_for test_type;
          sev = scan_ranges ranges total_score ''UNKNOWN''
      in \<lparr>score = total_score, severity = sev\<rparr>)"


section \<open>The data model: \<open>tests/models.py\<close>\<close>

text \<open>
  Only the fields that validation and scoring read are kept. An \<open>Option\<close> row
  contributes its integer \<open>value\<close>; a \<open>Question\<close> its primary key \<open>id\<close> (an integer
  assigned by the database, hence unique among the questions of a test) and its options;
  a \<open>ScoringRange\<close> row its \<open>min_score\<close>, \<open>max_score\<close> and \<open>severity\<close>; a \<open>Test\<close> its
  \<open>test_type\<close> and the related sets \<open>questions\<close> and \<open>scoring_ranges\<close>.
\<close>

record opt =
  opt_value :: int

record question =
  q_id :: int
  q_options :: "opt list"

record ScoringRange =
  min_score :: int
  max_score :: int
  sr_severity :: string

record test =
  test_type :: string
  test_questions :: "question list"
  test_scoring_ranges :: "ScoringRange list"

definition TEST_TYPES :: "(string \<times> string) list" where
  "TEST_TYPES =
     [(''PHQ9'', ''Depression Screening (PHQ-9)''),
      (''GAD7'', ''Anxiety Screening (GAD-7)''),
      (''PCL5'', ''PTSD Screening (PCL-5)'')]"

section \<open>Answer validation: \<open>healmymind/validators.py\<close>\<close>

text \<open>
  Python's \<open>str\<close> on an integer: the decimal digits, most significant first, with a
  leading minus sign for a negative number.
\<close>

definition digit_char :: "nat \<Rightarrow> char" where
  "digit_char d = ''0123456789'' ! d"

fun str_nat :: "nat \<Rightarrow> string" where
  "str_nat n =
     (if n < 10 then [digit_char n]
      else str_nat (n div 10) @ [digit_char (n mod 10)])"

declare str_nat.simps [simp del]

definition str :: "int \<Rightarrow> string" where
  "str i = (if i < 0 then CHR ''-'' # str_nat (nat (- i)) else str_nat (nat i))"

text \<open>
  Django's \<open>ValidationError(message, code=.., params=..)\<close>; \<open>params\<close> is \<open>None\<close> when
  the caller gives none.
\<close>

record validation_error =
  message :: string
  code :: string
  params :: "(string \<times> string) list option"

definition incomplete_answers :: validation_error where
  "incomplete_answers =
     \<lparr>message = ''All questions must be answered.'',
      code = ''incomplete_answers'',
      params = None\<rparr>"

definition invalid_answer :: "string \<Rightarrow> validation_error" where
  "invalid_answer qid =
     \<lparr>message = ''Invalid answer value for question %(q_id)s.'',
      code = ''invalid_answer'',
      params = Some [(''q_id'', qid)]\<rparr>"

text \<open>
  The loop \<open>for q_id, answer in answers.items()\<close>. \<open>next((q for q in questions if
  str(q['id']) == q_id), None)\<close> is \<open>find\<close>; a question dict is never empty, so
  \<open>if question:\<close> fails only on \<open>None\<close>, and the entry is then skipped.
\<close>

fun check_answer_values :: "answers \<Rightarrow> question list \<Rightarrow> validation_error + unit" where
  "check_answer_values [] questions = Inr ()"
| "check_answer_values ((qid, answer) # rest) questions =
     (case find (\<lambda>q. str (q_id q) = qid) questions of
        None \<Rightarrow> check_answer_values rest questions
      | Some question \<Rightarrow>
          (let valid_values = map opt_value (q_options question)
           in if answer \<notin> set valid_values then Inl (invalid_answer qid)
              else check_answer_values rest questions))"

definition validate_test_answers :: "answers \<Rightarrow> question list \<Rightarrow> validation_error + unit" where
  "validate_test_answers answers questions =
     (let question_ids = set (map (\<lambda>q. str (q_id q)) questions);
          answer_ids = set (map fst answers)
      in if question_ids \<noteq> answer_ids then Inl incomplete_answers
         else check_answer_values answers questions)"

section \<open>The submission path: \<open>tests/serializers.py\<close>\<close>

text \<open>
  \<open>SubmitTestSerializer.validate_answers(self, value)\<close>. \<open>self.context.get('test')\<close> is
  \<open>None\<close> or a model instance (always truthy). The keys of a JSON object are strings,
  on which \<open>str\<close> is the identity. The error is the REST framework's
  \<open>serializers.ValidationError(detail)\<close>.
\<close>

datatype serializer_error = SerializerValidationError string

definition validate_answers :: "answers \<Rightarrow> test option \<Rightarrow> serializer_error + answers" where
  "validate_answers val context_test =
     (case context_test of
        None \<Rightarrow> Inl (SerializerValidationError ''Test not found'')
      | Some t \<Rightarrow>
          (let questions = test_questions t;
               question_ids = set (map (\<lambda>q. str (q_id q)) questions);
               answer_ids = set (map fst val)
           in if question_ids \<noteq> answer_ids
              then Inl (SerializerValidationError ''All questions must be answered'')
              else Inr val))"


section \<open>Notions of the specification\<close>

text \<open>
  The test the loop of \<open>validate_test_answers\<close> applies to one entry of the answers:
  the entry passes when no question carries its key, or when its value is among the
  option values of the first question that does.
\<close>

definition answer_accepted :: "question list \<Rightarrow> string \<times> int \<Rightarrow> bool" where
  "answer_accepted questions e =
     (case find (\<lambda>q. str (q_id q) = fst e) questions of
        None \<Rightarrow> True
      | Some q \<Rightarrow> snd e \<in> set (map opt_value (q_options q)))"

text \<open>
  The violated questions of a submission, in the specification's words: the questions
  with no answer (missing), the answered keys that are no question of the test (extra),
  and the answered questions whose value is not among their options (invalid value).
\<close>

definition spec_violations :: "answers \<Rightarrow> question list \<Rightarrow> string list" where
  "spec_violations answers questions =
     [str (q_id q). q \<leftarrow> questions, str (q_id q) \<notin> set (map fst answers)] @
     [k. (k, v) \<leftarrow> answers, k \<notin> set (map (\<lambda>q. str (q_id q)) questions)] @
     [k. (k, v) \<leftarrow> answers, \<not> answer_accepted questions (k, v)]"

text \<open>The question identifiers an error carries: the values of its \<open>params\<close>.\<close>

definition named_questions :: "validation_error \<Rightarrow> string list" where
  "named_questions e = (case params e of None \<Rightarrow> [] | Some ps \<Rightarrow> map snd ps)"

text \<open>
  The domain of possible total scores of a test: from the sum of the least option value
  of every question to the sum of the greatest.
\<close>

definition min_possible_score :: "question list \<Rightarrow> int" where
  "min_possible_score questions =
     sum_list (map (\<lambda>q. Min (set (map opt_value (q_options q)))) questions)"

definition max_possible_score :: "question list \<Rightarrow> int" where
  "max_possible_score questions =
     sum_list (map (\<lambda>q. Max (set (map opt_value (q_options q)))) questions)"

text \<open>
  A list of inclusive bounds \<open>(min, max)\<close> is contiguous when every range is non-empty and
  each range starts one above the end of the one before; it covers the domain
  \<open>[lo, hi]\<close> when it starts at or below \<open>lo\<close> and ends at or above \<open>hi\<close>. The ranges are
  taken in ascending order of their minimum.
\<close>

fun contiguous :: "(int \<times> int) list \<Rightarrow> bool" where
  "contiguous [] = True"
| "contiguous [(a, b)] = (a \<le> b)"
| "contiguous ((a, b) # (a', b') # rs) = (a \<le> b \<and> a' = b + 1 \<and> contiguous ((a', b') # rs))"

definition contiguous_cover :: "(int \<times> int) list \<Rightarrow> int \<Rightarrow> int \<Rightarrow> bool" where
  "contiguous_cover bounds lo hi =
     (let bs = sort_key fst bounds
      in bs \<noteq> [] \<and> contiguous bs \<and> fst (hd bs) \<le> lo \<and> hi \<le> snd (last bs))"

definition authored_bounds :: "test \<Rightarrow> (int \<times> int) list" where
  "authored_bounds t = map (\<lambda>r. (min_score r, max_score r)) (test_scoring_ranges t)"

definition table_bounds :: "string \<Rightarrow> (int \<times> int) list" where
  "table_bounds tt = map (\<lambda>r. (range_min r, range_max r)) (ranges_for tt)"

text \<open>
  Severity resolution in the specification's words: scan the ranges in ascending order
  of \<open>min\<close> and return the severity of the first range with \<open>min <= total <= max\<close>, the
  sentinel when there is none.
\<close>

definition severity_by_ascending_scan :: "range_info list \<Rightarrow> int \<Rightarrow> string" where
  "severity_by_ascending_scan rs total_score =
     (case find (\<lambda>r. range_min r \<le> total_score \<and> total_score \<le> range_max r)
             (sort_key range_min rs) of
        None \<Rightarrow> ''UNKNOWN''
      | Some r \<Rightarrow> range_severity r)"

section \<open>Concrete tests and submissions\<close>

text \<open>
  The PHQ-9 test as \<open>scripts/seed.py\<close> creates it: nine questions, each with the options
  0 to 3, and the ranges 0-4, 5-9, 10-14, 15-27.
\<close>

definition four_point :: "opt list" where
  "four_point = [\<lparr>opt_value = 0\<rparr>, \<lparr>opt_value = 1\<rparr>, \<lparr>opt_value = 2\<rparr>, \<lparr>opt_value = 3\<rparr>]"

definition five_point :: "opt list" where
  "five_point = four_point @ [\<lparr>opt_value = 4\<rparr>]"

definition nine_questions :: "opt list \<Rightarrow> question list" where
  "nine_questions opts = map (\<lambda>i. \<lparr>q_id = i, q_options = opts\<rparr>) [1, 2, 3, 4, 5, 6, 7, 8, 9]"

definition nine_answers :: "int list \<Rightarrow> answers" where
  "nine_answers vs = zip (map str [1, 2, 3, 4, 5, 6, 7, 8, 9]) vs"

definition phq9_test :: test where
  "phq9_test =
     \<lparr>test_type = ''PHQ9'',
      test_questions = nine_questions four_point,
      test_scoring_ranges =
        [\<lparr>min_score = 0, max_score = 4, sr_severity = ''MINIMAL''\<rparr>,
         \<lparr>min_score = 5, max_score = 9, sr_severity = ''MILD''\<rparr>,
         \<lparr>min_score = 10, max_score = 14, sr_severity = ''MODERATE''\<rparr>,
         \<lparr>min_score = 15, max_score = 27, sr_severity = ''SEVERE''\<rparr>]\<rparr>"

text \<open>
  A test of type \<open>PHQ9\<close> authored with five-point options and ranges that partition its
  domain 0-36, and a \<open>PCL5\<close> test of two five-point questions with ranges that partition
  its domain 0-8.
\<close>

definition phq9_five_point_test :: test where
  "phq9_five_point_test =
     \<lparr>test_type = ''PHQ9'',
      test_questions = nine_questions five_point,
      test_scoring_ranges =
        [\<lparr>min_score = 0, max_score = 4, sr_severity = ''MINIMAL''\<rparr>,
         \<lparr>min_score = 5, max_score = 9, sr_severity = ''MILD''\<rparr>,
         \<lparr>min_score = 10, max_score = 14, sr_severity = ''MODERATE''\<rparr>,
         \<lparr>min_score = 15, max_score = 36, sr_severity = ''SEVERE''\<rparr>]\<rparr>"

definition pcl5_test :: test where
  "pcl5_test =
     \<lparr>test_type = ''PCL5'',
      test_questions =
        [\<lparr>q_id = 1, q_options = five_point\<rparr>, \<lparr>q_id = 2, q_options = five_point\<rparr>],
      test_scoring_ranges =
        [\<lparr>min_score = 0, max_score = 3, sr_severity = ''MINIMAL''\<rparr>,
         \<lparr>min_score = 4, max_score = 8, sr_severity = ''SEVERE''\<rparr>]\<rparr>"


section \<open>Properties of scoring\<close>

lemma ranges_for_PHQ9:
  "ranges_for ''PHQ9'' =
     [\<lparr>range_min = 0, range_max = 4, range_severity = ''MINIMAL''\<rparr>,
      \<lparr>range_min = 5, range_max = 9, range_severity = ''MILD''\<rparr>,
      \<lparr>range_min = 10, range_max = 14, range_severity = ''MODERATE''\<rparr>,
      \<lparr>range_min = 15, range_max = 27, range_severity = ''SEVERE''\<rparr>]"
  by (simp add: ranges_for_def scoring_ranges_def)

lemma ranges_for_GAD7:
  "ranges_for ''GAD7'' =
     [\<lparr>range_min = 0, range_max = 4, range_severity = ''MINIMAL''\<rparr>,
      \<lparr>range_min = 5, range_max = 9, range_severity = ''MILD''\<rparr>,
      \<lparr>range_min = 10, range_max = 14, range_severity = ''MODERATE''\<rparr>,
      \<lparr>range_min = 15, range_max = 21, range_severity = ''SEVERE''\<rparr>]"
  by (simp add: ranges_for_def scoring_ranges_def)

lemma ranges_for_other: "tt \<noteq> ''PHQ9'' \<Longrightarrow> tt \<noteq> ''GAD7'' \<Longrightarrow> ranges_for tt = []"
  by (simp add: ranges_for_def scoring_ranges_def)

lemma test_type_cases:
  obtains (PHQ9) "tt = ''PHQ9''" | (GAD7) "tt = ''GAD7''"
  | (other) "tt \<noteq> ''PHQ9''" "tt \<noteq> ''GAD7''"
  by blast

lemma scan_ranges_find:
  "scan_ranges rs t d =
     (case find (\<lambda>r. range_min r \<le> t \<and> t \<le> range_max r) rs of
        None \<Rightarrow> d
      | Some r \<Rightarrow> range_severity r)"
  by (induction rs) auto

lemma scan_ranges_no_match:
  "\<forall>r \<in> set rs. \<not> (range_min r \<le> t \<and> t \<le> range_max r) \<Longrightarrow> scan_ranges rs t d = d"
  by (induction rs) auto

lemma ranges_for_ascending: "sort_key range_min (ranges_for tt) = ranges_for tt"
  by (cases tt rule: test_type_cases)
     (simp_all add: ranges_for_PHQ9 ranges_for_GAD7 ranges_for_other)

lemma sum_list_map_mset_cong:
  fixes g :: "'a \<Rightarrow> int"
  shows "mset xs = mset ys \<Longrightarrow> sum_list (map g xs) = sum_list (map g ys)"
  by (metis mset_map sum_mset_sum_list)

lemma scan_table_labels:
  "scan_ranges (ranges_for tt) t ''UNKNOWN'' \<in>
     set [''MINIMAL'', ''MILD'', ''MODERATE'', ''SEVERE'', ''UNKNOWN'']"
  by (cases tt rule: test_type_cases)
     (simp_all add: ranges_for_PHQ9 ranges_for_GAD7 ranges_for_other)

text \<open>
  C4. The total score is the plain sum of the answer values, nothing weighted or scaled,
  and two answer mappings with the same entries in a different order give the same
  result.
\<close>

theorem total_score_plain_sum_order_independent:
  "score (calculate_test_score answers tt) = sum_list (map snd answers) \<and>
   (mset answers' = mset answers \<longrightarrow>
      calculate_test_score answers' tt = calculate_test_score answers tt)"
  using sum_list_map_mset_cong[of answers' answers snd]
  by (simp add: calculate_test_score_def Let_def)

theorem total_score_plain_sum_order_independent_witness:
  "score (calculate_test_score [(''1'', 3), (''2'', 0), (''3'', 2)] ''PHQ9'') = 5 \<and>
   calculate_test_score [(''3'', 2), (''1'', 3), (''2'', 0)] ''PHQ9'' =
   calculate_test_score [(''1'', 3), (''2'', 0), (''3'', 2)] ''PHQ9''"
proof -
  have p: "mset [(''3'', 2::int), (''1'', 3), (''2'', 0)] = mset [(''1'', 3), (''2'', 0), (''3'', 2)]"
    by simp
  from total_score_plain_sum_order_independent
         [of "[(''1'', 3), (''2'', 0), (''3'', 2)]" "''PHQ9''" "[(''3'', 2), (''1'', 3), (''2'', 0)]"] p
  show ?thesis by simp
qed

text \<open>
  C5. The severity is that of the first range, scanning in ascending order of the minimum
  bound, with \<open>min <= total <= max\<close>, both ends inclusive: a total equal to the \<open>min\<close> or
  the \<open>max\<close> of a range is classified into that range.
\<close>

theorem severity_first_match_ascending_inclusive:
  "severity (calculate_test_score answers tt) =
     severity_by_ascending_scan (ranges_for tt) (sum_list (map snd answers)) \<and>
   (\<forall>r \<in> set (ranges_for tt).
      sum_list (map snd answers) = range_min r \<or> sum_list (map snd answers) = range_max r \<longrightarrow>
      severity (calculate_test_score answers tt) = range_severity r)"
proof
  show "severity (calculate_test_score answers tt) =
     severity_by_ascending_scan (ranges_for tt) (sum_list (map snd answers))"
    by (simp add: calculate_test_score_def Let_def severity_by_ascending_scan_def
        ranges_for_ascending scan_ranges_find)
  show "\<forall>r \<in> set (ranges_for tt).
      sum_list (map snd answers) = range_min r \<or> sum_list (map snd answers) = range_max r \<longrightarrow>
      severity (calculate_test_score answers tt) = range_severity r"
    by (cases tt rule: test_type_cases)
       (auto simp: calculate_test_score_def Let_def ranges_for_PHQ9 ranges_for_GAD7
          ranges_for_other)
qed

theorem severity_first_match_ascending_inclusive_witness:
  "\<lparr>range_min = 5, range_max = 9, range_severity = ''MILD''\<rparr> \<in> set (ranges_for ''PHQ9'') \<and>
   sum_list (map snd (nine_answers [1, 1, 1, 1, 1, 0, 0, 0, 0])) = 5 \<and>
   sum_list (map snd (nine_answers [1, 1, 1, 1, 1, 1, 1, 1, 1])) = 9 \<and>
   severity (calculate_test_score (nine_answers [1, 1, 1, 1, 1, 0, 0, 0, 0]) ''PHQ9'') = ''MILD'' \<and>
   severity (calculate_test_score (nine_answers [1, 1, 1, 1, 1, 1, 1, 1, 1]) ''PHQ9'') = ''MILD''"
proof -
  let ?r = "\<lparr>range_min = 5, range_max = 9, range_severity = ''MILD''\<rparr>"
  have m: "?r \<in> set (ranges_for ''PHQ9'')"
    by (simp add: ranges_for_PHQ9)
  have lo: "sum_list (map snd (nine_answers [1, 1, 1, 1, 1, 0, 0, 0, 0])) = range_min ?r"
    and hi: "sum_list (map snd (nine_answers [1, 1, 1, 1, 1, 1, 1, 1, 1])) = range_max ?r"
    by (simp_all add: nine_answers_def)
  from severity_first_match_ascending_inclusive
         [of "nine_answers [1, 1, 1, 1, 1, 0, 0, 0, 0]" "''PHQ9''"] m lo
  have "severity (calculate_test_score (nine_answers [1, 1, 1, 1, 1, 0, 0, 0, 0]) ''PHQ9'') =
        range_severity ?r"
    by blast
  moreover from severity_first_match_ascending_inclusive
         [of "nine_answers [1, 1, 1, 1, 1, 1, 1, 1, 1]" "''PHQ9''"] m hi
  have "severity (calculate_test_score (nine_answers [1, 1, 1, 1, 1, 1, 1, 1, 1]) ''PHQ9'') =
        range_severity ?r"
    by blast
  ultimately show ?thesis using m lo hi by simp
qed

text \<open>
  C6. When the total score lies in no range of the table, the result is the sentinel
  severity \<open>UNKNOWN\<close> together with the computed total; the function returns a value.
\<close>

theorem no_matching_range_gives_unknown:
  "\<forall>r \<in> set (ranges_for tt).
      \<not> (range_min r \<le> sum_list (map snd answers) \<and> sum_list (map snd answers) \<le> range_max r)
   \<Longrightarrow> calculate_test_score answers tt =
         \<lparr>score = sum_list (map snd answers), severity = ''UNKNOWN''\<rparr>"
  by (simp add: calculate_test_score_def Let_def scan_ranges_no_match)

theorem no_matching_range_gives_unknown_witness:
  "calculate_test_score (nine_answers [3, 3, 3, 3, 3, 3, 4]) ''GAD7'' =
     \<lparr>score = 22, severity = ''UNKNOWN''\<rparr>"
proof -
  have t: "sum_list (map snd (nine_answers [3, 3, 3, 3, 3, 3, 4])) = 22"
    by (simp add: nine_answers_def)
  have h: "\<forall>r \<in> set (ranges_for ''GAD7'').
      \<not> (range_min r \<le> sum_list (map snd (nine_answers [3, 3, 3, 3, 3, 3, 4])) \<and>
         sum_list (map snd (nine_answers [3, 3, 3, 3, 3, 3, 4])) \<le> range_max r)"
    unfolding t by (simp add: ranges_for_GAD7)
  from no_matching_range_gives_unknown[OF h] t show ?thesis by simp
qed

text \<open>
  C7. The PHQ-9 configuration (ranges 0-4 minimal, 5-9 mild, 10-14 moderate, 15-27
  severe): answers summing to 4 give \<open>(4, MINIMAL)\<close>, to 5 \<open>(5, MILD)\<close>, to 27
  \<open>(27, SEVERE)\<close> and to 28 \<open>(28, UNKNOWN)\<close>.
\<close>

theorem phq9_scenario:
  "sum_list (map snd a4) = 4 \<Longrightarrow> sum_list (map snd a5) = 5 \<Longrightarrow>
   sum_list (map snd a27) = 27 \<Longrightarrow> sum_list (map snd a28) = 28 \<Longrightarrow>
   calculate_test_score a4 ''PHQ9'' = \<lparr>score = 4, severity = ''MINIMAL''\<rparr> \<and>
   calculate_test_score a5 ''PHQ9'' = \<lparr>score = 5, severity = ''MILD''\<rparr> \<and>
   calculate_test_score a27 ''PHQ9'' = \<lparr>score = 27, severity = ''SEVERE''\<rparr> \<and>
   calculate_test_score a28 ''PHQ9'' = \<lparr>score = 28, severity = ''UNKNOWN''\<rparr>"
  by (simp add: calculate_test_score_def Let_def ranges_for_PHQ9)

theorem phq9_scenario_witness:
  "calculate_test_score (nine_answers [1, 1, 1, 1, 0, 0, 0, 0, 0]) ''PHQ9'' =
     \<lparr>score = 4, severity = ''MINIMAL''\<rparr> \<and>
   calculate_test_score (nine_answers [1, 1, 1, 1, 1, 0, 0, 0, 0]) ''PHQ9'' =
     \<lparr>score = 5, severity = ''MILD''\<rparr> \<and>
   calculate_test_score (nine_answers [3, 3, 3, 3, 3, 3, 3, 3, 3]) ''PHQ9'' =
     \<lparr>score = 27, severity = ''SEVERE''\<rparr> \<and>
   calculate_test_score (nine_answers [3, 3, 3, 3, 3, 3, 3, 3, 4]) ''PHQ9'' =
     \<lparr>score = 28, severity = ''UNKNOWN''\<rparr>"
proof -
  have s: "sum_list (map snd (nine_answers [1, 1, 1, 1, 0, 0, 0, 0, 0])) = 4"
    "sum_list (map snd (nine_answers [1, 1, 1, 1, 1, 0, 0, 0, 0])) = 5"
    "sum_list (map snd (nine_answers [3, 3, 3, 3, 3, 3, 3, 3, 3])) = 27"
    "sum_list (map snd (nine_answers [3, 3, 3, 3, 3, 3, 3, 3, 4])) = 28"
    by (simp_all add: nine_answers_def)
  show ?thesis by (rule phq9_scenario[OF s])
qed

text \<open>
  C8. For a test type other than \<open>PHQ9\<close> and \<open>GAD7\<close> the severity is \<open>UNKNOWN\<close> whatever
  the total. \<open>PCL5\<close>, which the data model lists among the test types, is one of them.
  The result depends on a test through its type only: its authored scoring ranges play
  no part.
\<close>

theorem other_test_types_unknown:
  "(tt \<noteq> ''PHQ9'' \<and> tt \<noteq> ''GAD7'' \<longrightarrow>
      calculate_test_score answers tt =
        \<lparr>score = sum_list (map snd answers), severity = ''UNKNOWN''\<rparr>) \<and>
   ''PCL5'' \<in> set (map fst TEST_TYPES) \<and>
   calculate_test_score answers ''PCL5'' =
     \<lparr>score = sum_list (map snd answers), severity = ''UNKNOWN''\<rparr> \<and>
   calculate_test_score answers (test_type (t\<lparr>test_scoring_ranges := rs\<rparr>)) =
     calculate_test_score answers (test_type t)"
  by (simp add: calculate_test_score_def Let_def ranges_for_other TEST_TYPES_def)

theorem other_test_types_unknown_witness:
  "calculate_test_score [(''1'', 2), (''2'', 2)] (test_type pcl5_test) =
     \<lparr>score = 4, severity = ''UNKNOWN''\<rparr> \<and>
   calculate_test_score [(''1'', 2), (''2'', 2)] ''PHQ9'' =
     \<lparr>score = 4, severity = ''MINIMAL''\<rparr>"
proof -
  have n: "test_type pcl5_test \<noteq> ''PHQ9'' \<and> test_type pcl5_test \<noteq> ''GAD7''"
    by (simp add: pcl5_test_def)
  from other_test_types_unknown[of "test_type pcl5_test" "[(''1'', 2), (''2'', 2)]"] n
  have "calculate_test_score [(''1'', 2), (''2'', 2)] (test_type pcl5_test) =
     \<lparr>score = sum_list (map snd [(''1'', 2::int), (''2'', 2)]), severity = ''UNKNOWN''\<rparr>"
    by blast
  then show ?thesis
    by (simp add: calculate_test_score_def Let_def ranges_for_PHQ9)
qed

text \<open>
  C10. Scoring is total: for every answers mapping and every test-type string the
  result has a score, the sum of the values, and a severity, one of the four labels or
  the sentinel; the empty mapping has the total 0.
\<close>

theorem calculate_test_score_total:
  "calculate_test_score answers tt =
     \<lparr>score = sum_list (map snd answers),
      severity = scan_ranges (ranges_for tt) (sum_list (map snd answers)) ''UNKNOWN''\<rparr> \<and>
   severity (calculate_test_score answers tt) \<in>
     set [''MINIMAL'', ''MILD'', ''MODERATE'', ''SEVERE'', ''UNKNOWN''] \<and>
   score (calculate_test_score [] tt) = 0"
  using scan_table_labels[of tt "sum_list (map snd answers)"]
  by (simp add: calculate_test_score_def Let_def)

theorem calculate_test_score_total_witness:
  "calculate_test_score [] ''PHQ9'' = \<lparr>score = 0, severity = ''MINIMAL''\<rparr> \<and>
   calculate_test_score [] ''PCL5'' = \<lparr>score = 0, severity = ''UNKNOWN''\<rparr> \<and>
   calculate_test_score [] [] = \<lparr>score = 0, severity = ''UNKNOWN''\<rparr>"
proof -
  have "calculate_test_score [] ''PHQ9'' =
          \<lparr>score = 0, severity = scan_ranges (ranges_for ''PHQ9'') 0 ''UNKNOWN''\<rparr>"
    and "calculate_test_score [] ''PCL5'' =
          \<lparr>score = 0, severity = scan_ranges (ranges_for ''PCL5'') 0 ''UNKNOWN''\<rparr>"
    and "calculate_test_score [] [] =
          \<lparr>score = 0, severity = scan_ranges (ranges_for []) 0 ''UNKNOWN''\<rparr>"
    using calculate_test_score_total[of "[]" "''PHQ9''"]
      calculate_test_score_total[of "[]" "''PCL5''"]
      calculate_test_score_total[of "[]" "[]"]
    by simp_all
  then show ?thesis by (simp add: ranges_for_PHQ9 ranges_for_other)
qed


section \<open>Properties of validation\<close>

subsection \<open>\<open>str\<close> is injective\<close>

lemma digit_char_inj: "a < 10 \<Longrightarrow> b < 10 \<Longrightarrow> digit_char a = digit_char b \<longleftrightarrow> a = b"
  unfolding digit_char_def
  by (subst nth_eq_iff_index_eq) simp_all

lemma digit_char_not_minus: "d < 10 \<Longrightarrow> digit_char d \<noteq> CHR ''-''"
proof -
  assume "d < 10"
  then have "digit_char d \<in> set ''0123456789''"
    unfolding digit_char_def by (intro nth_mem) simp
  then show ?thesis by auto
qed

lemma str_nat_nonempty: "str_nat n \<noteq> []"
  by (subst str_nat.simps) simp

lemma str_nat_no_minus: "CHR ''-'' \<notin> set (str_nat n)"
proof (induction n rule: str_nat.induct)
  case (1 n)
  show ?case
  proof (cases "n < 10")
    case True
    then show ?thesis using digit_char_not_minus[of n] by (subst str_nat.simps) auto
  next
    case False
    then show ?thesis using 1 digit_char_not_minus[of "n mod 10"]
      by (subst str_nat.simps) auto
  qed
qed

lemma str_nat_inj: "str_nat n = str_nat m \<Longrightarrow> n = m"
proof (induction n arbitrary: m rule: str_nat.induct)
  case (1 n)
  show ?case
  proof (cases "n < 10")
    case n: True
    show ?thesis
    proof (cases "m < 10")
      case True
      with n 1(2) show ?thesis
        by (simp add: str_nat.simps[of n] str_nat.simps[of m] digit_char_inj)
    next
      case False
      with n 1(2) str_nat_nonempty[of "m div 10"] show ?thesis
        by (simp add: str_nat.simps[of n] str_nat.simps[of m])
    qed
  next
    case n: False
    show ?thesis
    proof (cases "m < 10")
      case True
      with n 1(2) str_nat_nonempty[of "n div 10"] show ?thesis
        by (simp add: str_nat.simps[of n] str_nat.simps[of m])
    next
      case False
      with n 1(2) have e: "str_nat (n div 10) = str_nat (m div 10)"
        and d: "digit_char (n mod 10) = digit_char (m mod 10)"
        by (simp_all add: str_nat.simps[of n] str_nat.simps[of m])
      from 1(1)[OF n e] have "n div 10 = m div 10" .
      moreover from d have "n mod 10 = m mod 10" by (simp add: digit_char_inj)
      ultimately show ?thesis by (metis div_mult_mod_eq)
    qed
  qed
qed

lemma str_inj: "str i = str j \<Longrightarrow> i = j"
proof -
  assume e: "str i = str j"
  have hd: "\<And>n. hd (str_nat n) \<noteq> CHR ''-''"
    using str_nat_no_minus str_nat_nonempty by (metis hd_in_set)
  have ne: "\<And>n m. CHR ''-'' # str_nat n \<noteq> str_nat m"
    using hd by (metis list.sel(1))
  show ?thesis
  proof (cases "i < 0")
    case i: True
    show ?thesis
    proof (cases "j < 0")
      case True
      with i e have "nat (- i) = nat (- j)" by (auto simp: str_def dest: str_nat_inj)
      with i True show ?thesis by simp
    next
      case False
      with i e ne show ?thesis by (auto simp: str_def)
    qed
  next
    case i: False
    show ?thesis
    proof (cases "j < 0")
      case True
      with i e ne[of "nat (- j)" "nat i"] show ?thesis by (auto simp: str_def)
    next
      case False
      with i e have "nat i = nat j" by (auto simp: str_def dest: str_nat_inj)
      with i False show ?thesis by simp
    qed
  qed
qed


lemma str_digits:
  "str 1 = ''1''" "str 2 = ''2''" "str 3 = ''3''" "str 4 = ''4''" "str 5 = ''5''"
  "str 6 = ''6''" "str 7 = ''7''" "str 8 = ''8''" "str 9 = ''9''"
  by (simp_all add: str_def str_nat.simps digit_char_def)

subsection \<open>The loop over the answers\<close>

lemma find_question:
  "distinct (map q_id questions) \<Longrightarrow> q \<in> set questions \<Longrightarrow>
   find (\<lambda>q'. str (q_id q') = str (q_id q)) questions = Some q"
proof (induction questions)
  case Nil
  then show ?case by simp
next
  case (Cons a questions)
  then show ?case by (auto dest: str_inj)
qed

lemma check_answer_values_find:
  "check_answer_values answers questions =
     (case find (\<lambda>e. \<not> answer_accepted questions e) answers of
        None \<Rightarrow> Inr ()
      | Some e \<Rightarrow> Inl (invalid_answer (fst e)))"
  by (induction answers questions rule: check_answer_values.induct)
     (auto simp: answer_accepted_def Let_def split: option.splits)

lemma check_answer_values_ok:
  "check_answer_values answers questions = Inr () \<longleftrightarrow>
     (\<forall>e \<in> set answers. answer_accepted questions e)"
  by (induction answers questions rule: check_answer_values.induct)
     (auto simp: answer_accepted_def Let_def split: option.splits)

lemma answer_accepted_distinct:
  assumes "distinct (map q_id questions)" "q \<in> set questions"
  shows "answer_accepted questions (str (q_id q), v) \<longleftrightarrow> v \<in> set (map opt_value (q_options q))"
  using find_question[OF assms] by (simp add: answer_accepted_def)

lemma validate_ok_iff:
  assumes d: "distinct (map q_id questions)"
  shows "validate_test_answers answers questions = Inr () \<longleftrightarrow>
     set (map fst answers) = set (map (\<lambda>q. str (q_id q)) questions) \<and>
     (\<forall>q \<in> set questions. \<forall>v. (str (q_id q), v) \<in> set answers \<longrightarrow>
         v \<in> set (map opt_value (q_options q)))"
    (is "?L \<longleftrightarrow> ?K \<and> ?V")
proof (cases ?K)
  case False
  then show ?thesis by (auto simp: validate_test_answers_def Let_def)
next
  case True
  have "(\<forall>e \<in> set answers. answer_accepted questions e) \<longleftrightarrow> ?V"
  proof
    assume a: "\<forall>e \<in> set answers. answer_accepted questions e"
    show ?V
    proof (intro ballI allI impI)
      fix q v assume q: "q \<in> set questions" and m: "(str (q_id q), v) \<in> set answers"
      from a m have "answer_accepted questions (str (q_id q), v)" by blast
      then show "v \<in> set (map opt_value (q_options q))"
        by (simp only: answer_accepted_distinct[OF d q])
    qed
  next
    assume v: ?V
    show "\<forall>e \<in> set answers. answer_accepted questions e"
    proof
      fix e assume e: "e \<in> set answers"
      then have "fst e \<in> set (map fst answers)" by simp
      with True obtain q where q: "q \<in> set questions" and k: "fst e = str (q_id q)"
        by auto
      from e k have "(str (q_id q), snd e) \<in> set answers" by (metis prod.collapse)
      with v q have "snd e \<in> set (map opt_value (q_options q))" by blast
      then have "answer_accepted questions (str (q_id q), snd e)"
        by (simp only: answer_accepted_distinct[OF d q])
      with k show "answer_accepted questions e" by (metis prod.collapse)
    qed
  qed
  with True show ?thesis
    by (simp add: validate_test_answers_def Let_def check_answer_values_ok)
qed


lemma check_answer_values_first_invalid:
  "\<forall>e \<in> set pre. answer_accepted questions e \<Longrightarrow> \<not> answer_accepted questions (k, v) \<Longrightarrow>
   check_answer_values (pre @ (k, v) # post) questions = Inl (invalid_answer k)"
proof (induction pre)
  case Nil
  then show ?case by (simp add: check_answer_values_find)
next
  case (Cons e pre)
  then show ?case by (simp add: check_answer_values_find)
qed

subsection \<open>The total of a validated submission\<close>

lemma answers_values_lookup:
  fixes answers :: answers
  shows "distinct (map fst answers) \<Longrightarrow>
   map snd answers = map (\<lambda>k. the (map_of answers k)) (map fst answers)"
proof (induction answers)
  case Nil
  then show ?case by simp
next
  case (Cons e answers)
  obtain k v where e: "e = (k, v)" by (cases e)
  from Cons.prems e have nk: "k \<notin> fst ` set answers" and d: "distinct (map fst answers)"
    by simp_all
  have "map (\<lambda>k'. the (map_of (e # answers) k')) (map fst answers) =
        map (\<lambda>k'. the (map_of answers k')) (map fst answers)"
    using nk e by (intro map_cong refl) auto
  with Cons.IH[OF d] e show ?case by simp
qed

lemma total_over_questions:
  fixes answers :: answers
  assumes da: "distinct (map fst answers)"
    and dq: "distinct (map q_id questions)"
    and keys: "set (map fst answers) = set (map (\<lambda>q. str (q_id q)) questions)"
  shows "sum_list (map snd answers) =
         sum_list (map (\<lambda>q. the (map_of answers (str (q_id q)))) questions)"
proof -
  let ?g = "\<lambda>k. the (map_of answers k) :: int"
  let ?f = "\<lambda>q. str (q_id q)"
  have "inj_on str (set (map q_id questions))"
    by (auto intro: inj_onI dest: str_inj)
  with dq have "distinct (map str (map q_id questions))"
    by (simp only: distinct_map)
  then have dk: "distinct (map ?f questions)" by (simp add: comp_def)
  from da dk keys have m: "mset (map fst answers) = mset (map ?f questions)"
    by (simp only: set_eq_iff_mset_eq_distinct)
  have "sum_list (map snd answers) = sum_list (map ?g (map fst answers))"
    by (rule arg_cong[OF answers_values_lookup[OF da]])
  also have "\<dots> = sum_list (map ?g (map ?f questions))"
    by (rule sum_list_map_mset_cong[OF m])
  finally show ?thesis by (simp add: comp_def)
qed

lemma validated_answer_in_options:
  fixes answers :: answers
  assumes da: "distinct (map fst answers)"
    and dq: "distinct (map q_id questions)"
    and ok: "validate_test_answers answers questions = Inr ()"
    and q: "q \<in> set questions"
  shows "the (map_of answers (str (q_id q))) \<in> set (map opt_value (q_options q))"
proof -
  from ok dq have keys: "set (map fst answers) = set (map (\<lambda>q. str (q_id q)) questions)"
    and vals: "\<forall>q \<in> set questions. \<forall>v. (str (q_id q), v) \<in> set answers \<longrightarrow>
         v \<in> set (map opt_value (q_options q))"
    using validate_ok_iff[OF dq, of answers] by blast+
  from q keys have "str (q_id q) \<in> set (map fst answers)" by simp
  then obtain v where v: "(str (q_id q), v) \<in> set answers" by auto
  with da have "map_of answers (str (q_id q)) = Some v" by simp
  moreover from vals q v have "v \<in> set (map opt_value (q_options q))" by blast
  ultimately show ?thesis by simp
qed

lemma validated_total_bounds:
  fixes answers :: answers
  assumes da: "distinct (map fst answers)"
    and dq: "distinct (map q_id questions)"
    and ok: "validate_test_answers answers questions = Inr ()"
  shows "min_possible_score questions \<le> sum_list (map snd answers)"
    and "sum_list (map snd answers) \<le> max_possible_score questions"
proof -
  from ok dq have keys: "set (map fst answers) = set (map (\<lambda>q. str (q_id q)) questions)"
    using validate_ok_iff[OF dq, of answers] by blast
  note t = total_over_questions[OF da dq keys]
  show "min_possible_score questions \<le> sum_list (map snd answers)"
    unfolding t min_possible_score_def
    by (rule sum_list_mono) (use validated_answer_in_options[OF da dq ok] in auto)
  show "sum_list (map snd answers) \<le> max_possible_score questions"
    unfolding t max_possible_score_def
    by (rule sum_list_mono) (use validated_answer_in_options[OF da dq ok] in auto)
qed

lemma table_bounds_PHQ9: "table_bounds ''PHQ9'' = [(0,4),(5,9),(10,14),(15,27)]"
  by (simp add: table_bounds_def ranges_for_def scoring_ranges_def)
lemma table_bounds_GAD7: "table_bounds ''GAD7'' = [(0,4),(5,9),(10,14),(15,21)]"
  by (simp add: table_bounds_def ranges_for_def scoring_ranges_def)
lemma table_bounds_other: "tt \<noteq> ''PHQ9'' \<Longrightarrow> tt \<noteq> ''GAD7'' \<Longrightarrow> table_bounds tt = []"
  by (simp add: table_bounds_def ranges_for_def scoring_ranges_def)

lemma table_cover_no_unknown:
  assumes c: "contiguous_cover (table_bounds tt) lo hi" and t: "lo \<le> t" "t \<le> hi"
  shows "scan_ranges (ranges_for tt) t ''UNKNOWN'' \<noteq> ''UNKNOWN''"
proof -
  consider "tt = ''PHQ9''" | "tt = ''GAD7''" | "tt \<noteq> ''PHQ9''" "tt \<noteq> ''GAD7''" by blast
  then show ?thesis
  proof cases
    case 1
    with c have "0 \<le> lo" "hi \<le> 27" by (simp_all add: table_bounds_PHQ9 contiguous_cover_def)
    with t have "0 \<le> t" "t \<le> 27" by simp_all
    with 1 show ?thesis by (simp add: ranges_for_def scoring_ranges_def)
  next
    case 2
    with c have "0 \<le> lo" "hi \<le> 21" by (simp_all add: table_bounds_GAD7 contiguous_cover_def)
    with t have "0 \<le> t" "t \<le> 21" by simp_all
    with 2 show ?thesis by (simp add: ranges_for_def scoring_ranges_def)
  next
    case 3
    with c show ?thesis by (simp add: table_bounds_other contiguous_cover_def)
  qed
qed


lemmas concrete_defs =
  four_point_def five_point_def nine_questions_def nine_answers_def
  phq9_test_def phq9_five_point_test_def pcl5_test_def str_digits

text \<open>
  C3. Given that the questions of a test have distinct identifiers, validation succeeds
  exactly when the answer keys are the question identifiers, as sets, and every value
  supplied for a question is the value of one of its options.
\<close>

theorem validate_succeeds_iff:
  assumes "distinct (map q_id questions)"
  shows "validate_test_answers answers questions = Inr () \<longleftrightarrow>
     set (map fst answers) = set (map (\<lambda>q. str (q_id q)) questions) \<and>
     (\<forall>q \<in> set questions. \<forall>v. (str (q_id q), v) \<in> set answers \<longrightarrow>
         v \<in> set (map opt_value (q_options q)))"
  by (rule validate_ok_iff[OF assms])

theorem validate_succeeds_iff_witness:
  "distinct (map q_id (nine_questions four_point)) \<and>
   validate_test_answers (nine_answers [0, 1, 2, 3, 0, 1, 2, 3, 0]) (nine_questions four_point) = Inr () \<and>
   set (map fst (nine_answers [0, 1, 2, 3, 0, 1, 2, 3, 0])) =
     set (map (\<lambda>q. str (q_id q)) (nine_questions four_point)) \<and>
   (''4'', 7) \<in> set (nine_answers [0, 1, 2, 7, 0, 1, 2, 3, 0]) \<and>
   validate_test_answers (nine_answers [0, 1, 2, 7, 0, 1, 2, 3, 0]) (nine_questions four_point) \<noteq> Inr ()"
proof -
  have d: "distinct (map q_id (nine_questions four_point))"
    by (simp add: concrete_defs)
  have ok: "validate_test_answers (nine_answers [0, 1, 2, 3, 0, 1, 2, 3, 0])
              (nine_questions four_point) = Inr ()"
    by (simp add: validate_test_answers_def concrete_defs)
  from validate_succeeds_iff[OF d, of "nine_answers [0, 1, 2, 3, 0, 1, 2, 3, 0]"] ok
  have keys: "set (map fst (nine_answers [0, 1, 2, 3, 0, 1, 2, 3, 0])) =
     set (map (\<lambda>q. str (q_id q)) (nine_questions four_point))"
    by blast
  have q: "\<lparr>q_id = 4, q_options = four_point\<rparr> \<in> set (nine_questions four_point)"
    by (simp add: concrete_defs)
  have m: "(str (q_id \<lparr>q_id = 4, q_options = four_point\<rparr>), 7) \<in>
             set (nine_answers [0, 1, 2, 7, 0, 1, 2, 3, 0])"
    by (simp add: concrete_defs)
  have n: "7 \<notin> set (map opt_value (q_options \<lparr>q_id = 4, q_options = four_point\<rparr>))"
    by (simp add: concrete_defs)
  from validate_succeeds_iff[OF d, of "nine_answers [0, 1, 2, 7, 0, 1, 2, 3, 0]"] q m n
  have bad: "validate_test_answers (nine_answers [0, 1, 2, 7, 0, 1, 2, 3, 0])
               (nine_questions four_point) \<noteq> Inr ()"
    by blast
  from m have "(''4'', 7) \<in> set (nine_answers [0, 1, 2, 7, 0, 1, 2, 3, 0])"
    by (simp add: str_digits)
  with d ok keys bad show ?thesis by blast
qed

text \<open>
  C2, as the specification states it, fails: validation stops at the first violation.
  A submission that misses question 9 of nine is rejected with the error
  \<open>incomplete_answers\<close>, which names no question, and a submission with two invalid
  values is rejected with an error that names the first of them only.
\<close>

theorem validation_reports_all_counterexample:
  "validate_test_answers (nine_answers [3, 3, 3, 3, 3, 3, 3, 3]) (nine_questions four_point) =
     Inl incomplete_answers \<and>
   spec_violations (nine_answers [3, 3, 3, 3, 3, 3, 3, 3]) (nine_questions four_point) = [''9''] \<and>
   named_questions incomplete_answers = [] \<and>
   validate_test_answers (nine_answers [3, 7, 3, 3, 8, 3, 3, 3, 3]) (nine_questions four_point) =
     Inl (invalid_answer ''2'') \<and>
   spec_violations (nine_answers [3, 7, 3, 3, 8, 3, 3, 3, 3]) (nine_questions four_point) =
     [''2'', ''5''] \<and>
   named_questions (invalid_answer ''2'') = [''2'']"
proof -
  have "''9'' \<in> set (map (\<lambda>q. str (q_id q)) (nine_questions four_point))"
    and "''9'' \<notin> set (map fst (nine_answers [3, 3, 3, 3, 3, 3, 3, 3]))"
    by (simp_all add: concrete_defs)
  then have "set (map (\<lambda>q. str (q_id q)) (nine_questions four_point)) \<noteq>
             set (map fst (nine_answers [3, 3, 3, 3, 3, 3, 3, 3]))"
    by metis
  then have a: "validate_test_answers (nine_answers [3, 3, 3, 3, 3, 3, 3, 3])
                  (nine_questions four_point) = Inl incomplete_answers"
    by (simp add: validate_test_answers_def)
  have b: "spec_violations (nine_answers [3, 3, 3, 3, 3, 3, 3, 3]) (nine_questions four_point) =
             [''9'']"
    by (simp add: spec_violations_def answer_accepted_def concrete_defs)
  have c: "validate_test_answers (nine_answers [3, 7, 3, 3, 8, 3, 3, 3, 3])
             (nine_questions four_point) = Inl (invalid_answer ''2'')"
    by (simp add: validate_test_answers_def concrete_defs)
  have d: "spec_violations (nine_answers [3, 7, 3, 3, 8, 3, 3, 3, 3]) (nine_questions four_point) =
             [''2'', ''5'']"
    by (simp add: spec_violations_def answer_accepted_def concrete_defs)
  show ?thesis
    using a b c d by (simp add: named_questions_def incomplete_answers_def invalid_answer_def)
qed

text \<open>
  C2, amended. Validation fails fast with a single error. When the answer keys differ
  from the question identifiers, the error is \<open>incomplete_answers\<close>, which names no
  question. When they agree and some value is not accepted, the error is
  \<open>invalid_answer\<close> and names the first such entry, in the iteration order of the
  answers, and no other.
\<close>

theorem validation_fails_fast:
  "(set (map (\<lambda>q. str (q_id q)) questions) \<noteq> set (map fst answers) \<longrightarrow>
      validate_test_answers answers questions = Inl incomplete_answers \<and>
      named_questions incomplete_answers = []) \<and>
   (set (map (\<lambda>q. str (q_id q)) questions) = set (map fst answers) \<and>
    answers = pre @ (k, v) # post \<and>
    (\<forall>e \<in> set pre. answer_accepted questions e) \<and> \<not> answer_accepted questions (k, v) \<longrightarrow>
      validate_test_answers answers questions = Inl (invalid_answer k) \<and>
      named_questions (invalid_answer k) = [k])"
  by (auto simp: validate_test_answers_def Let_def check_answer_values_first_invalid
      named_questions_def incomplete_answers_def invalid_answer_def
      simp del: set_map)

theorem validation_fails_fast_witness:
  "validate_test_answers (nine_answers [3, 3, 3, 3, 3, 3, 3, 3]) (nine_questions four_point) =
     Inl incomplete_answers \<and>
   validate_test_answers (nine_answers [3, 7, 3, 3, 8, 3, 3, 3, 3]) (nine_questions four_point) =
     Inl (invalid_answer ''2'')"
proof -
  let ?qs = "nine_questions four_point"
  have "''9'' \<in> set (map (\<lambda>q. str (q_id q)) ?qs)"
    and "''9'' \<notin> set (map fst (nine_answers [3, 3, 3, 3, 3, 3, 3, 3]))"
    by (simp_all add: concrete_defs)
  then have ne: "set (map (\<lambda>q. str (q_id q)) ?qs) \<noteq>
                 set (map fst (nine_answers [3, 3, 3, 3, 3, 3, 3, 3]))"
    by metis
  from validation_fails_fast[of ?qs "nine_answers [3, 3, 3, 3, 3, 3, 3, 3]"] ne
  have a: "validate_test_answers (nine_answers [3, 3, 3, 3, 3, 3, 3, 3]) ?qs =
             Inl incomplete_answers"
    by blast
  let ?pre = "[(''1'', 3::int)]"
  let ?post = "[(''3'', 3::int), (''4'', 3), (''5'', 8), (''6'', 3), (''7'', 3), (''8'', 3), (''9'', 3)]"
  have e: "set (map (\<lambda>q. str (q_id q)) ?qs) =
           set (map fst (nine_answers [3, 7, 3, 3, 8, 3, 3, 3, 3]))"
    by (simp add: concrete_defs)
  have s: "nine_answers [3, 7, 3, 3, 8, 3, 3, 3, 3] = ?pre @ (''2'', 7) # ?post"
    by (simp add: concrete_defs)
  have p: "\<forall>e \<in> set ?pre. answer_accepted ?qs e"
    by (simp add: answer_accepted_def concrete_defs)
  have n: "\<not> answer_accepted ?qs (''2'', 7)"
    by (simp add: answer_accepted_def concrete_defs)
  from validation_fails_fast
         [of ?qs "nine_answers [3, 7, 3, 3, 8, 3, 3, 3, 3]" ?pre "''2''" 7 ?post] e s p n
  have b: "validate_test_answers (nine_answers [3, 7, 3, 3, 8, 3, 3, 3, 3]) ?qs =
             Inl (invalid_answer ''2'')"
    by blast
  from a b show ?thesis by simp
qed

text \<open>
  C9. The validation of the submission path compares the answer keys with the
  question identifiers and nothing else: with equal key sets the submission is
  accepted whatever its values are, and the outcome is the same for any two
  submissions with the same key set.
\<close>

theorem submission_path_checks_keys_only:
  "(set (map (\<lambda>q. str (q_id q)) (test_questions t)) = set (map fst val) \<longrightarrow>
      validate_answers val (Some t) = Inr val) \<and>
   (set (map (\<lambda>q. str (q_id q)) (test_questions t)) \<noteq> set (map fst val) \<longrightarrow>
      validate_answers val (Some t) =
        Inl (SerializerValidationError ''All questions must be answered'')) \<and>
   (set (map fst val') = set (map fst val) \<longrightarrow>
      (validate_answers val' (Some t) = Inr val') = (validate_answers val (Some t) = Inr val))"
  by (simp add: validate_answers_def Let_def del: set_map)

theorem submission_path_checks_keys_only_witness:
  "validate_answers (nine_answers [7, 7, 7, 7, 7, 7, 7, 7, 7]) (Some phq9_test) =
     Inr (nine_answers [7, 7, 7, 7, 7, 7, 7, 7, 7]) \<and>
   filter (answer_accepted (test_questions phq9_test)) (nine_answers [7, 7, 7, 7, 7, 7, 7, 7, 7]) = [] \<and>
   validate_test_answers (nine_answers [7, 7, 7, 7, 7, 7, 7, 7, 7]) (test_questions phq9_test) =
     Inl (invalid_answer ''1'')"
proof -
  have e: "set (map (\<lambda>q. str (q_id q)) (test_questions phq9_test)) =
           set (map fst (nine_answers [7, 7, 7, 7, 7, 7, 7, 7, 7]))"
    by (simp add: concrete_defs)
  from submission_path_checks_keys_only[of phq9_test "nine_answers [7, 7, 7, 7, 7, 7, 7, 7, 7]"] e
  have a: "validate_answers (nine_answers [7, 7, 7, 7, 7, 7, 7, 7, 7]) (Some phq9_test) =
     Inr (nine_answers [7, 7, 7, 7, 7, 7, 7, 7, 7])"
    by blast
  have b: "filter (answer_accepted (test_questions phq9_test))
             (nine_answers [7, 7, 7, 7, 7, 7, 7, 7, 7]) = []"
    by (simp add: answer_accepted_def concrete_defs)
  have c: "validate_test_answers (nine_answers [7, 7, 7, 7, 7, 7, 7, 7, 7])
             (test_questions phq9_test) = Inl (invalid_answer ''1'')"
    by (simp add: validate_test_answers_def concrete_defs)
  from a b c show ?thesis by simp
qed

text \<open>
  C1, as the specification states it, fails: scoring never reads the ranges authored
  for the test. A \<open>PCL5\<close> test whose ranges partition its domain 0-8, and a \<open>PHQ9\<close> test
  with five-point options whose ranges partition its domain 0-36, both get \<open>UNKNOWN\<close>
  for a validated submission.
\<close>

theorem authored_ranges_cover_counterexample:
  "distinct (map q_id (test_questions pcl5_test)) \<and>
   contiguous_cover (authored_bounds pcl5_test)
     (min_possible_score (test_questions pcl5_test))
     (max_possible_score (test_questions pcl5_test)) \<and>
   validate_test_answers [(''1'', 2), (''2'', 2)] (test_questions pcl5_test) = Inr () \<and>
   calculate_test_score [(''1'', 2), (''2'', 2)] (test_type pcl5_test) =
     \<lparr>score = 4, severity = ''UNKNOWN''\<rparr> \<and>
   distinct (map q_id (test_questions phq9_five_point_test)) \<and>
   contiguous_cover (authored_bounds phq9_five_point_test)
     (min_possible_score (test_questions phq9_five_point_test))
     (max_possible_score (test_questions phq9_five_point_test)) \<and>
   validate_test_answers (nine_answers [4, 4, 4, 4, 4, 4, 4, 4, 4])
     (test_questions phq9_five_point_test) = Inr () \<and>
   calculate_test_score (nine_answers [4, 4, 4, 4, 4, 4, 4, 4, 4])
     (test_type phq9_five_point_test) = \<lparr>score = 36, severity = ''UNKNOWN''\<rparr>"
proof -
  have "contiguous_cover (authored_bounds pcl5_test)
     (min_possible_score (test_questions pcl5_test))
     (max_possible_score (test_questions pcl5_test))"
    by (simp add: contiguous_cover_def authored_bounds_def min_possible_score_def
        max_possible_score_def concrete_defs)
  moreover have "validate_test_answers [(''1'', 2), (''2'', 2)] (test_questions pcl5_test) = Inr ()"
    by (simp add: validate_test_answers_def concrete_defs)
  moreover have "calculate_test_score [(''1'', 2), (''2'', 2)] (test_type pcl5_test) =
     \<lparr>score = 4, severity = ''UNKNOWN''\<rparr>"
    by (simp add: calculate_test_score_def ranges_for_other concrete_defs)
  moreover have "contiguous_cover (authored_bounds phq9_five_point_test)
     (min_possible_score (test_questions phq9_five_point_test))
     (max_possible_score (test_questions phq9_five_point_test))"
    by (simp add: contiguous_cover_def authored_bounds_def min_possible_score_def
        max_possible_score_def concrete_defs)
  moreover have "validate_test_answers (nine_answers [4, 4, 4, 4, 4, 4, 4, 4, 4])
     (test_questions phq9_five_point_test) = Inr ()"
    by (simp add: validate_test_answers_def concrete_defs)
  moreover have "calculate_test_score (nine_answers [4, 4, 4, 4, 4, 4, 4, 4, 4])
     (test_type phq9_five_point_test) = \<lparr>score = 36, severity = ''UNKNOWN''\<rparr>"
    by (simp add: calculate_test_score_def ranges_for_PHQ9 concrete_defs)
  moreover have "distinct (map q_id (test_questions pcl5_test))"
    and "distinct (map q_id (test_questions phq9_five_point_test))"
    by (simp_all add: concrete_defs)
  ultimately show ?thesis by blast
qed

text \<open>
  C1, amended. For every test such that the ranges of the hard-coded table for its type
  are contiguous and cover the domain of its possible total scores, and for every answers
  mapping that passed validation, scoring never returns \<open>UNKNOWN\<close>. The questions have
  distinct identifiers and the answers distinct keys.
\<close>

theorem table_ranges_cover_never_unknown:
  assumes "distinct (map fst answers)"
    and "distinct (map q_id (test_questions t))"
    and "validate_test_answers answers (test_questions t) = Inr ()"
    and "contiguous_cover (table_bounds (test_type t))
           (min_possible_score (test_questions t)) (max_possible_score (test_questions t))"
  shows "severity (calculate_test_score answers (test_type t)) \<noteq> ''UNKNOWN''"
  using table_cover_no_unknown[OF assms(4) validated_total_bounds[OF assms(1-3)]]
  by (simp add: calculate_test_score_def Let_def)

theorem table_ranges_cover_never_unknown_witness:
  "validate_test_answers (nine_answers [3, 3, 3, 3, 3, 3, 3, 3, 3]) (test_questions phq9_test) = Inr () \<and>
   min_possible_score (test_questions phq9_test) = 0 \<and>
   max_possible_score (test_questions phq9_test) = 27 \<and>
   contiguous_cover (table_bounds (test_type phq9_test)) 0 27 \<and>
   severity (calculate_test_score (nine_answers [3, 3, 3, 3, 3, 3, 3, 3, 3]) (test_type phq9_test)) \<noteq>
     ''UNKNOWN''"
proof -
  have da: "distinct (map fst (nine_answers [3, 3, 3, 3, 3, 3, 3, 3, 3]))"
    by (simp add: concrete_defs)
  have dq: "distinct (map q_id (test_questions phq9_test))"
    by (simp add: concrete_defs)
  have ok: "validate_test_answers (nine_answers [3, 3, 3, 3, 3, 3, 3, 3, 3])
              (test_questions phq9_test) = Inr ()"
    by (simp add: validate_test_answers_def concrete_defs)
  have lo: "min_possible_score (test_questions phq9_test) = 0"
    and hi: "max_possible_score (test_questions phq9_test) = 27"
    by (simp_all add: min_possible_score_def max_possible_score_def concrete_defs)
  have tt: "test_type phq9_test = ''PHQ9''"
    by (simp add: phq9_test_def)
  have c: "contiguous_cover (table_bounds (test_type phq9_test)) 0 27"
    by (simp add: tt table_bounds_PHQ9 contiguous_cover_def)
  from c have c': "contiguous_cover (table_bounds (test_type phq9_test))
           (min_possible_score (test_questions phq9_test))
           (max_possible_score (test_questions phq9_test))"
    by (simp only: lo hi)
  from table_ranges_cover_never_unknown[OF da dq ok c'] ok lo hi c
  show ?thesis by blast
qed

end
